theory Spec2Isabelle
  imports Complex_Main
begin

section \<open>Values of the Python program\<close>

text \<open>
  The embedding follows \<^verbatim>\<open>nsga-net/search/train_search.py\<close>. Python exceptions are
  values of the type \<open>error\<close>; a function that may raise returns \<open>error + 'a\<close>.
  \<open>External\<close> stands for an exception raised inside a library or a module that the
  file only calls (torch, the decoders, the model constructors, the operating system).
\<close>

datatype error =
    NameError string
  | TypeError string
  | KeyError string
  | ZeroDivisionError
  | OSError string
  | External string

text \<open>
  A Python float is a real number or a non-finite value (NaN or an infinity). The program
  only adds floats, scales them and divides them by a positive count, and under these
  operations a non-finite operand gives a non-finite result. Rounding is not modelled.
\<close>

datatype pyfloat = Fin real | NonFin

fun fadd :: "pyfloat \<Rightarrow> pyfloat \<Rightarrow> pyfloat" where
  "fadd (Fin a) (Fin b) = Fin (a + b)"
| "fadd _ _ = NonFin"

fun fscale :: "real \<Rightarrow> pyfloat \<Rightarrow> pyfloat" where
  "fscale w (Fin a) = Fin (w * a)"
| "fscale w NonFin = NonFin"

fun fdiv :: "pyfloat \<Rightarrow> nat \<Rightarrow> pyfloat" where
  "fdiv (Fin a) n = Fin (a / real n)"
| "fdiv NonFin n = NonFin"

text \<open>The values stored in the \<^verbatim>\<open>params\<close> dictionary of \<^verbatim>\<open>train\<close>.\<close>

datatype pyval = PBool bool | PInt int | PFloat real

fun truthy :: "pyval \<Rightarrow> bool" where
  "truthy (PBool b) = b"
| "truthy (PInt i) = (i \<noteq> 0)"
| "truthy (PFloat r) = (r \<noteq> 0)"

fun num_of :: "pyval \<Rightarrow> real" where
  "num_of (PBool b) = (if b then 1 else 0)"
| "num_of (PInt i) = real_of_int i"
| "num_of (PFloat r) = r"

text \<open>\<^verbatim>\<open>d[k]\<close> on a dictionary: a missing key raises \<^verbatim>\<open>KeyError\<close>.\<close>

definition getitem :: "(string \<rightharpoonup> pyval) \<Rightarrow> string \<Rightarrow> error + pyval" where
  "getitem d k = (case d k of None \<Rightarrow> Inl (KeyError k) | Some v \<Rightarrow> Inr v)"

text \<open>
  \<^verbatim>\<open>step % m == 0\<close> for an integer \<open>step\<close>: a zero divisor raises
  \<^verbatim>\<open>ZeroDivisionError\<close>; \<^verbatim>\<open>True\<close> counts as 1 and \<^verbatim>\<open>False\<close> as 0.
\<close>

fun mod_is_zero :: "nat \<Rightarrow> pyval \<Rightarrow> error + bool" where
  "mod_is_zero step (PBool b) = (if b then Inr True else Inl ZeroDivisionError)"
| "mod_is_zero step (PInt m) =
     (if m = 0 then Inl ZeroDivisionError else Inr (int step mod m = 0))"
| "mod_is_zero step (PFloat r) =
     (if r = 0 then Inl ZeroDivisionError
      else Inr (real step - r * of_int \<lfloor>real step / r\<rfloor> = 0))"

section \<open>Batches and the network\<close>

text \<open>
  A batch is described by what the loops read from it after the forward pass: for every
  example the predicted class (\<^verbatim>\<open>outputs.max(1)\<close>) and the target, the value of
  \<^verbatim>\<open>criterion(outputs, targets)\<close>, and the value of the criterion on the auxiliary
  output. \<^verbatim>\<open>targets.size(0)\<close> is the number of examples.
\<close>

record batch =
  examples :: "(nat \<times> nat) list"
  loss :: pyfloat
  loss_aux :: pyfloat

definition targets_size :: "batch \<Rightarrow> nat" where
  "targets_size b = length (examples b)"

definition eq_sum :: "batch \<Rightarrow> nat" where
  "eq_sum b = length (filter (\<lambda>(p, t). p = t) (examples b))"

text \<open>
  The network, as far as the file touches it: the shapes of its parameter tensors with
  their \<^verbatim>\<open>requires_grad\<close> flag, the train/eval mode, the \<^verbatim>\<open>droprate\<close>
  attribute, and whether the FLOP counter is attached and counting.
\<close>

record net =
  tensors :: "(nat list \<times> bool) list"
  training :: bool
  droprate :: real
  flops_methods :: bool
  flops_counting :: bool

section \<open>The evaluation pass\<close>

text \<open>
  \<^verbatim>\<open>infer\<close>, lines 213 to 232. The accumulators are \<open>(test_loss, correct, tot)\<close>,
  \<open>tot\<close> standing for the source's \<^verbatim>\<open>total\<close>.
\<close>

fun infer_loop :: "batch list \<Rightarrow> pyfloat \<times> nat \<times> nat \<Rightarrow> pyfloat \<times> nat \<times> nat" where
  "infer_loop [] acc = acc"
| "infer_loop (b # bs) (test_loss, correct, tot) =
     infer_loop bs (fadd test_loss (loss b), correct + eq_sum b, tot + targets_size b)"

definition infer :: "batch list \<Rightarrow> net \<Rightarrow> (error + real \<times> pyfloat) \<times> net" where
  "infer valid_queue n =
     (let n' = n\<lparr>training := False\<rparr>;
          (test_loss, correct, tot) = infer_loop valid_queue (Fin 0, 0, 0)
      in if tot = 0 then (Inl ZeroDivisionError, n')
         else (Inr (100 * real correct / real tot, fdiv test_loss tot), n'))"

section \<open>The training pass\<close>

text \<open>
  One iteration of the loop of \<^verbatim>\<open>train\<close>, lines 181 to 207, on the accumulators
  \<open>(train_loss, correct, tot)\<close>. The dictionary reads happen in the order of the source:
  \<^verbatim>\<open>params['auxiliary']\<close>, \<^verbatim>\<open>params['auxiliary_weight']\<close> when the former is
  true, \<^verbatim>\<open>params['grad_clip']\<close>, then after the accumulators are updated
  \<^verbatim>\<open>params['log_interval']\<close>. The progress line divides by \<open>tot\<close>. The scaler and the
  optimizer act on the weights only; no branch of the loop looks at the loss value.
\<close>

definition and_then :: "error + 'a \<Rightarrow> ('a \<Rightarrow> error + 'b) \<Rightarrow> error + 'b" where
  "and_then m f = (case m of Inl e \<Rightarrow> Inl e | Inr x \<Rightarrow> f x)"

definition batch_loss :: "(string \<rightharpoonup> pyval) \<Rightarrow> batch \<Rightarrow> error + pyfloat" where
  "batch_loss params b =
     and_then (getitem params ''auxiliary'') (\<lambda>aux.
       if truthy aux
       then and_then (getitem params ''auxiliary_weight'') (\<lambda>w.
              Inr (fadd (loss b) (fscale (num_of w) (loss_aux b))))
       else Inr (loss b))"

definition train_batch ::
  "(string \<rightharpoonup> pyval) \<Rightarrow> batch \<Rightarrow> nat \<Rightarrow> pyfloat \<times> nat \<times> nat
    \<Rightarrow> error + pyfloat \<times> nat \<times> nat" where
  "train_batch params b step acc =
     (case acc of (train_loss, correct, tot) \<Rightarrow>
        and_then (batch_loss params b) (\<lambda>l.
        and_then (getitem params ''grad_clip'') (\<lambda>grad_clip.
          let train_loss' = fadd train_loss l;
              tot' = tot + targets_size b;
              correct' = correct + eq_sum b
          in and_then (getitem params ''log_interval'') (\<lambda>log_interval.
             and_then (mod_is_zero step log_interval) (\<lambda>report.
               if report \<and> tot' = 0 then Inl ZeroDivisionError
               else Inr (train_loss', correct', tot'))))))"

fun train_loop ::
  "(string \<rightharpoonup> pyval) \<Rightarrow> batch list \<Rightarrow> nat \<Rightarrow> pyfloat \<times> nat \<times> nat
    \<Rightarrow> error + pyfloat \<times> nat \<times> nat" where
  "train_loop params [] step acc = Inr acc"
| "train_loop params (b # bs) step acc =
     (case train_batch params b step acc of
        Inl e \<Rightarrow> Inl e
      | Inr acc' \<Rightarrow> train_loop params bs (Suc step) acc')"

text \<open>\<^verbatim>\<open>train\<close>, lines 174 to 209.\<close>

definition train ::
  "batch list \<Rightarrow> net \<Rightarrow> (string \<rightharpoonup> pyval) \<Rightarrow> (error + real \<times> pyfloat) \<times> net" where
  "train train_queue n params =
     (let n' = n\<lparr>training := True\<rparr>
      in case train_loop params train_queue 0 (Fin 0, 0, 0) of
           Inl e \<Rightarrow> (Inl e, n')
         | Inr (train_loss, correct, tot) \<Rightarrow>
             if tot = 0 then (Inl ZeroDivisionError, n')
             else (Inr (100 * real correct / real tot, fdiv train_loss tot), n'))"

text \<open>
  \<^verbatim>\<open>train\<close> declares six parameters, none with a default
  (\<^verbatim>\<open>train_queue, net, criterion, optimizer, params, device\<close>). A call with another
  number of positional arguments raises \<^verbatim>\<open>TypeError\<close> before the body runs.
\<close>

definition train_nparams :: nat where
  "train_nparams = 6"

definition call_train ::
  "nat \<Rightarrow> batch list \<Rightarrow> net \<Rightarrow> (string \<rightharpoonup> pyval) \<Rightarrow> (error + real \<times> pyfloat) \<times> net" where
  "call_train nargs train_queue n params =
     (if nargs = train_nparams then train train_queue n params
      else (Inl (TypeError ''train() missing required positional argument''), n))"

text \<open>
  A dictionary that lets every read of \<^verbatim>\<open>train\<close> succeed: the keys are present and
  the reporting interval is not zero.
\<close>

definition params_complete :: "(string \<rightharpoonup> pyval) \<Rightarrow> bool" where
  "params_complete params =
     ((case params ''auxiliary'' of
         None \<Rightarrow> False
       | Some aux \<Rightarrow> truthy aux \<longrightarrow> params ''auxiliary_weight'' \<noteq> None) \<and>
      params ''grad_clip'' \<noteq> None \<and>
      (case params ''log_interval'' of None \<Rightarrow> False | Some m \<Rightarrow> num_of m \<noteq> 0))"

section \<open>The learning-rate schedule\<close>

text \<open>
  \<^verbatim>\<open>torch.optim.lr_scheduler.CosineAnnealingLR(optimizer, T_max)\<close> as torch documents it
  (the file needs \<^verbatim>\<open>torch.cuda.amp\<close>, so a torch in which the constructor performs the
  initial step): after construction \<^verbatim>\<open>last_epoch\<close> is 0 and the optimizer holds the
  base rate; every \<^verbatim>\<open>step()\<close> adds one to \<^verbatim>\<open>last_epoch\<close> and sets the rate to
  \<open>eta_min + (base_lr - eta_min) * (1 + cos (pi * last_epoch / T_max)) / 2\<close>, with
  \<open>eta_min = 0\<close>. The field \<open>lr\<close> is the rate the optimizer uses.
\<close>

record scheduler =
  base_lr :: real
  T_max :: int
  last_epoch :: nat
  lr :: real

definition CosineAnnealingLR :: "real \<Rightarrow> int \<Rightarrow> scheduler" where
  "CosineAnnealingLR rate t =
     \<lparr>base_lr = rate, T_max = t, last_epoch = 0, lr = rate\<rparr>"

definition scheduler_step :: "scheduler \<Rightarrow> scheduler" where
  "scheduler_step s =
     (let e = Suc (last_epoch s)
      in s\<lparr>last_epoch := e,
            lr := base_lr s * (1 + cos (pi * real e / real_of_int (T_max s))) / 2\<rparr>)"

section \<open>The evaluation of one genome\<close>

text \<open>A genome is a nested list of integers; a genotype is what a decoder returns.\<close>

datatype pyobj = PyInt int | PyList "pyobj list"

datatype genotype = Genotype string

text \<open>The arguments of \<^verbatim>\<open>main\<close>.\<close>

record args =
  genome :: pyobj
  epochs :: int
  search_space :: string
  save :: string
  expr_root :: string
  seed :: int
  gpu :: int
  init_channels :: int
  layers :: int
  auxiliary :: bool
  cutout :: bool
  drop_path_prob :: real

text \<open>
  What \<^verbatim>\<open>main\<close> calls outside the file, as the outcome of each call:
  \<^verbatim>\<open>utils.create_exp_dir\<close>, the two decoders, the two model constructors, the torch
  and data set-up of lines 76 to 134, the batches of the two loaders (the training loader
  once per epoch), the forward pass with \<^verbatim>\<open>compute_average_flops_cost\<close>, and the
  opening and writing of \<^verbatim>\<open>log.txt\<close>. \<open>None\<close> means that the call returned.
\<close>

record env =
  ext_create_exp_dir :: "error option"
  ext_micro_decode :: "pyobj \<Rightarrow> error + genotype"
  ext_macro_decode :: "pyobj \<Rightarrow> error + genotype"
  ext_Network :: "int \<Rightarrow> int \<Rightarrow> int \<Rightarrow> bool \<Rightarrow> genotype \<Rightarrow> error + net"
  ext_EvoNetwork :: "genotype \<Rightarrow> (int \<times> int) list \<Rightarrow> int \<Rightarrow> error + net"
  ext_torch_setup :: "error option"
  ext_train_queue :: "nat \<Rightarrow> batch list"
  ext_valid_queue :: "batch list"
  ext_flops_cost :: "error + real"
  ext_open_log :: "error option"

section \<open>The FLOP counter\<close>

text \<open>
  Modelled from the spec: \<^verbatim>\<open>misc/flops_counter.py\<close> is not among the sources. The spec
  has the profiler instrument every compute-bearing layer, run one forward pass in
  evaluation mode and sum the per-layer counts. \<^verbatim>\<open>add_flops_counting_methods\<close> gives
  the network the counting methods.
\<close>

definition add_flops_counting_methods :: "net \<Rightarrow> net" where
  "add_flops_counting_methods n = n\<lparr>flops_methods := True\<rparr>"

text \<open>
  Modelled from the spec: \<^verbatim>\<open>start_flops_count\<close> of the absent
  \<^verbatim>\<open>misc/flops_counter.py\<close> attaches the per-layer counters, which then accumulate
  on every forward pass.
\<close>

definition start_flops_count :: "net \<Rightarrow> net" where
  "start_flops_count n = n\<lparr>flops_counting := True\<rparr>"

text \<open>
  Modelled from the spec: \<^verbatim>\<open>compute_average_flops_cost\<close> of the absent
  \<^verbatim>\<open>misc/flops_counter.py\<close>. After the forward pass the profiler sums the counts of
  the layers and removes the instrumentation afterward, also when the pass failed. The
  sum (or the exception of the forward pass) is given by the environment.
\<close>

definition compute_average_flops_cost :: "env \<Rightarrow> net \<Rightarrow> (error + real) \<times> net" where
  "compute_average_flops_cost env n =
     (ext_flops_cost env, n\<lparr>flops_methods := False, flops_counting := False\<rparr>)"

text \<open>\<^verbatim>\<open>model.eval()\<close>.\<close>

definition net_eval :: "net \<Rightarrow> net" where
  "net_eval n = n\<lparr>training := False\<rparr>"

text \<open>The steps of \<^verbatim>\<open>main\<close> that reach outside, in the order they happen.\<close>

datatype event =
    CreateExpDir
  | Decode string
  | Build string
  | TorchSetup
  | SchedulerStep real
  | SetDroprate real
  | TrainCall nat
  | InferCall
  | FlopsCount
  | OpenLog

definition CIFAR_CLASSES :: int where
  "CIFAR_CLASSES = 10"

definition learning_rate :: real where
  "learning_rate = 25 / 1000"

definition train_params :: "args \<Rightarrow> (string \<rightharpoonup> pyval)" where
  "train_params a =
     map_of [(''auxiliary'', PBool (auxiliary a)),
             (''auxiliary_weight'', PFloat (4 / 10)),
             (''grad_clip'', PInt 5),
             (''report_freq'', PInt 50)]"

text \<open>Lines 37 to 71: the experiment directory, then the dispatch on the search space.\<close>

definition build_model :: "env \<Rightarrow> args \<Rightarrow> (error + genotype \<times> net) \<times> event list" where
  "build_model env a =
     (case ext_create_exp_dir env of
        Some e \<Rightarrow> (Inl e, [CreateExpDir])
      | None \<Rightarrow>
          if search_space a = ''micro'' then
            (case ext_micro_decode env (genome a) of
               Inl e \<Rightarrow> (Inl e, [CreateExpDir, Decode ''micro''])
             | Inr genotype \<Rightarrow>
                 (case ext_Network env (init_channels a) CIFAR_CLASSES (layers a)
                         (auxiliary a) genotype of
                    Inl e \<Rightarrow> (Inl e, [CreateExpDir, Decode ''micro'', Build ''micro''])
                  | Inr m \<Rightarrow>
                      (Inr (genotype, m), [CreateExpDir, Decode ''micro'', Build ''micro''])))
          else if search_space a = ''macro'' then
            (case ext_macro_decode env (genome a) of
               Inl e \<Rightarrow> (Inl e, [CreateExpDir, Decode ''macro''])
             | Inr genotype \<Rightarrow>
                 (case ext_EvoNetwork env genotype
                         [(3, init_channels a),
                          (init_channels a, 2 * init_channels a),
                          (2 * init_channels a, 4 * init_channels a)] CIFAR_CLASSES of
                    Inl e \<Rightarrow> (Inl e, [CreateExpDir, Decode ''macro'', Build ''macro''])
                  | Inr m \<Rightarrow>
                      (Inr (genotype, m), [CreateExpDir, Decode ''macro'', Build ''macro''])))
          else (Inl (NameError ''Unknown search space type''), [CreateExpDir]))"

text \<open>Line 82: the trainable parameters, in millions.\<close>

definition n_params_of :: "net \<Rightarrow> real" where
  "n_params_of m =
     real (sum_list (map (\<lambda>v. prod_list (fst v)) (filter snd (tensors m)))) / 1000000"

text \<open>\<^verbatim>\<open>np.round(x, 4)\<close>: to four decimals, a tie going to the even neighbour.\<close>

definition round_half_even :: "real \<Rightarrow> int" where
  "round_half_even y =
     (let f = \<lfloor>y\<rfloor>; d = y - of_int f
      in if d < 1 / 2 then f else if 1 / 2 < d then f + 1
         else if even f then f else f + 1)"

definition np_round4 :: "real \<Rightarrow> real" where
  "np_round4 x = of_int (round_half_even (x * 10000)) / 10000"

text \<open>
  The state the epochs act on: the scheduler with the optimizer's rate, the network, and
  the events so far.
\<close>

record world =
  sched :: scheduler
  model :: net
  trace :: "event list"

text \<open>Lines 137 to 139: the scheduler steps, then the drop-path rate is assigned.\<close>

definition epoch_prologue :: "real \<Rightarrow> int \<Rightarrow> nat \<Rightarrow> world \<Rightarrow> world" where
  "epoch_prologue dpp n_epochs epoch w =
     (let s = scheduler_step (sched w);
          r = dpp * real epoch / real_of_int n_epochs
      in \<lparr>sched = s, model = (model w)\<lparr>droprate := r\<rparr>,
          trace = trace w @ [SchedulerStep (lr s), SetDroprate r]\<rparr>)"

text \<open>
  The loop of lines 136 to 142 over \<^verbatim>\<open>range(epochs)\<close>. The call of line 141 is the
  parameter \<open>call\<close>; an exception it raises ends the loop and \<^verbatim>\<open>main\<close>.
\<close>

fun epoch_loop ::
  "(nat \<Rightarrow> net \<Rightarrow> (error + real \<times> pyfloat) \<times> net) \<Rightarrow> real \<Rightarrow> int \<Rightarrow> nat list
    \<Rightarrow> world \<Rightarrow> error option \<times> world" where
  "epoch_loop call dpp n_epochs [] w = (None, w)"
| "epoch_loop call dpp n_epochs (epoch # rest) w =
     (let w1 = epoch_prologue dpp n_epochs epoch w;
          (r, m) = call epoch (model w1);
          w2 = w1\<lparr>model := m, trace := trace w1 @ [TrainCall epoch]\<rparr>
      in case r of
           Inl e \<Rightarrow> (Some e, w2)
         | Inr _ \<Rightarrow> epoch_loop call dpp n_epochs rest w2)"

text \<open>
  Lines 144 to 171: the evaluation pass, the FLOP count, the summary file, the returned
  dictionary. The \<^verbatim>\<open>with open\<close> block has no handler around it.
\<close>

definition finish ::
  "env \<Rightarrow> real \<Rightarrow> world \<Rightarrow> (error + (string \<times> real) list) \<times> event list \<times> net option" where
  "finish env n_params w =
     (let (r, m1) = infer (ext_valid_queue env) (model w);
          tr1 = trace w @ [InferCall]
      in case r of
           Inl e \<Rightarrow> (Inl e, tr1, Some m1)
         | Inr (valid_acc, valid_obj) \<Rightarrow>
             (let (c, m2) = compute_average_flops_cost env
                              (start_flops_count (net_eval (add_flops_counting_methods m1)));
                  tr2 = tr1 @ [FlopsCount]
              in case c of
                   Inl e \<Rightarrow> (Inl e, tr2, Some m2)
                 | Inr cost \<Rightarrow>
                     (let n_flops = np_round4 (cost / 1000000)
                      in case ext_open_log env of
                           Some e \<Rightarrow> (Inl e, tr2 @ [OpenLog], Some m2)
                         | None \<Rightarrow>
                             (Inr [(''valid_acc'', valid_acc),
                                   (''params'', n_params),
                                   (''flops'', n_flops)],
                              tr2 @ [OpenLog], Some m2))))"

text \<open>
  \<^verbatim>\<open>main\<close>, lines 32 to 171. It returns the dictionary or the exception, the events,
  and the network it holds at that moment. Line 141 passes five arguments to
  \<^verbatim>\<open>train\<close>.
\<close>

definition main ::
  "env \<Rightarrow> args \<Rightarrow> (error + (string \<times> real) list) \<times> event list \<times> net option" where
  "main env a =
     (case build_model env a of
        (Inl e, tr) \<Rightarrow> (Inl e, tr, None)
      | (Inr (genotype, m0), tr) \<Rightarrow>
          (case ext_torch_setup env of
             Some e \<Rightarrow> (Inl e, tr @ [TorchSetup], Some m0)
           | None \<Rightarrow>
               (let n_params = n_params_of m0;
                    w0 = \<lparr>sched = CosineAnnealingLR learning_rate (epochs a),
                          model = m0, trace = tr @ [TorchSetup]\<rparr>;
                    (r, w1) = epoch_loop
                                (\<lambda>epoch m. call_train 5 (ext_train_queue env epoch) m
                                              (train_params a))
                                (drop_path_prob a) (epochs a) [0..<nat (epochs a)] w0
                in case r of
                     Some e \<Rightarrow> (Inl e, trace w1, Some (model w1))
                   | None \<Rightarrow> finish env n_params w1)))"

section \<open>Inputs used for evaluation\<close>

definition example_net :: net where
  "example_net =
     \<lparr>tensors = [([16, 3, 3, 3], True), ([10, 64], True), ([10], False)],
      training = True, droprate = 0, flops_methods = False, flops_counting = False\<rparr>"

definition example_batches :: "batch list" where
  "example_batches =
     [\<lparr>examples = [(3, 3), (1, 2)], loss = Fin 1, loss_aux = Fin 0\<rparr>,
      \<lparr>examples = [(0, 0)], loss = Fin 2, loss_aux = Fin 0\<rparr>]"

definition nan_batches :: "batch list" where
  "nan_batches =
     [\<lparr>examples = [(3, 3), (1, 2)], loss = NonFin, loss_aux = NonFin\<rparr>,
      \<lparr>examples = [(0, 0)], loss = NonFin, loss_aux = NonFin\<rparr>]"

definition example_params :: "string \<rightharpoonup> pyval" where
  "example_params =
     map_of [(''auxiliary'', PBool False),
             (''auxiliary_weight'', PFloat (4 / 10)),
             (''grad_clip'', PInt 5),
             (''log_interval'', PInt 50)]"

definition example_env :: env where
  "example_env =
     \<lparr>ext_create_exp_dir = None,
      ext_micro_decode = (\<lambda>g. Inr (Genotype ''micro'')),
      ext_macro_decode = (\<lambda>g. Inr (Genotype ''macro'')),
      ext_Network = (\<lambda>c k l aux g. Inr example_net),
      ext_EvoNetwork = (\<lambda>g ch k. Inr example_net),
      ext_torch_setup = None,
      ext_train_queue = (\<lambda>epoch. example_batches),
      ext_valid_queue = example_batches,
      ext_flops_cost = Inr 2500000,
      ext_open_log = None\<rparr>"

definition example_args :: "int \<Rightarrow> args" where
  "example_args n =
     \<lparr>genome = PyList [PyList [PyList [PyList [PyInt 3, PyInt 0], PyList [PyInt 3, PyInt 1]]]],
      epochs = n, search_space = ''micro'', save = ''Design_1'', expr_root = ''search'',
      seed = 0, gpu = 0, init_channels = 16, layers = 11, auxiliary = False,
      cutout = False, drop_path_prob = 0\<rparr>"

section \<open>The evaluation pass: accuracy and example count\<close>

lemma eq_sum_le: "eq_sum b \<le> targets_size b"
  by (simp add: eq_sum_def targets_size_def)

lemma infer_loop_total:
  "infer_loop bs (l, c, t) = (l', c', t') \<Longrightarrow> t' = t + sum_list (map targets_size bs)"
proof (induction bs arbitrary: l c t)
  case Nil
  then show ?case by simp
next
  case (Cons b bs)
  from Cons.prems
  have "infer_loop bs (fadd l (loss b), c + eq_sum b, t + targets_size b) = (l', c', t')"
    by simp
  from Cons.IH [OF this] show ?case by simp
qed

lemma infer_loop_correct:
  "infer_loop bs (l, c, t) = (l', c', t') \<Longrightarrow> c \<le> t \<Longrightarrow> c' \<le> t'"
proof (induction bs arbitrary: l c t)
  case Nil
  then show ?case by simp
next
  case (Cons b bs)
  have "c + eq_sum b \<le> t + targets_size b"
    using Cons.prems(2) eq_sum_le [of b] by linarith
  with Cons show ?case by simp
qed

lemma sum_sizes_pos:
  assumes "bs \<noteq> []" and "\<forall>b \<in> set bs. examples b \<noteq> []"
  shows "0 < sum_list (map targets_size bs)"
proof (cases bs)
  case Nil
  with assms(1) show ?thesis by simp
next
  case (Cons b rest)
  with assms(2) have "0 < targets_size b" by (simp add: targets_size_def)
  with Cons show ?thesis by simp
qed

text \<open>
  C8: on a validation stream that is not empty, that is, one whose batches hold at least
  one example in all, \<^verbatim>\<open>infer\<close> returns; the accuracy it returns lies between 0
  and 100, and the example counter it divides by is the sum of the batch sizes of the
  stream, every batch counted once.
\<close>

theorem infer_accuracy_and_total:
  assumes "0 < sum_list (map targets_size valid_queue)"
  shows "\<exists>test_loss correct acc.
           infer_loop valid_queue (Fin 0, 0, 0) =
             (test_loss, correct, sum_list (map targets_size valid_queue)) \<and>
           fst (infer valid_queue n) =
             Inr (acc, fdiv test_loss (sum_list (map targets_size valid_queue))) \<and>
           acc = 100 * real correct / real (sum_list (map targets_size valid_queue)) \<and>
           0 \<le> acc \<and> acc \<le> 100"
proof -
  let ?N = "sum_list (map targets_size valid_queue)"
  obtain l c t where run: "infer_loop valid_queue (Fin 0, 0, 0) = (l, c, t)"
    by (cases "infer_loop valid_queue (Fin 0, 0, 0)") auto
  have t: "t = ?N" using infer_loop_total [OF run] by simp
  have c: "c \<le> t" using infer_loop_correct [OF run] by simp
  have pos: "0 < ?N" using assms .
  have res: "fst (infer valid_queue n) = Inr (100 * real c / real ?N, fdiv l ?N)"
    using run t pos by (simp add: infer_def del: sum_list_eq_0_iff)
  have lo: "0 \<le> 100 * real c / real ?N" by simp
  have "real c \<le> real ?N" using c t by simp
  then have hi: "100 * real c / real ?N \<le> 100"
    using pos by (simp add: divide_le_eq)
  from run t res lo hi show ?thesis by blast
qed

theorem infer_accuracy_and_total_witness:
  "fst (infer example_batches example_net) = Inr (200 / 3, Fin 1)"
proof -
  have h: "0 < sum_list (map targets_size example_batches)"
    by (simp add: example_batches_def targets_size_def)
  from infer_accuracy_and_total [OF h, of example_net]
  obtain acc where "fst (infer example_batches example_net) = Inr (acc, Fin 1)"
    and "acc * 3 = 200"
    by (auto simp add: example_batches_def targets_size_def eq_sum_def)
  then show ?thesis by simp
qed

text \<open>
  C9: on a validation stream that yields no batch, the example count is still 0 when
  the accuracy is computed, and \<^verbatim>\<open>infer\<close> raises \<^verbatim>\<open>ZeroDivisionError\<close>
  instead of returning.
\<close>

theorem infer_empty_stream_fails: "fst (infer [] m) = Inl ZeroDivisionError"
  by (simp add: infer_def)

text \<open>The training pass ends the same way on a stream that yields no batch.\<close>

lemma train_empty_stream_fails: "fst (train [] m params) = Inl ZeroDivisionError"
  by (simp add: train_def)

section \<open>The training pass on non-finite losses\<close>

lemma train_batch_complete:
  assumes "params_complete params" and "examples b \<noteq> []"
  shows "\<exists>l. batch_loss params b = Inr l \<and>
             train_batch params b step (acc_l, c, t) =
               Inr (fadd acc_l l, c + eq_sum b, t + targets_size b)"
proof -
  from assms(1) obtain aux gc m where
    aux: "params ''auxiliary'' = Some aux" and
    w: "truthy aux \<longrightarrow> params ''auxiliary_weight'' \<noteq> None" and
    gc: "params ''grad_clip'' = Some gc" and
    m: "params ''log_interval'' = Some m" and mz: "num_of m \<noteq> 0"
    by (auto simp add: params_complete_def split: option.splits)
  have pos: "targets_size b \<noteq> 0" using assms(2) by (simp add: targets_size_def)
  have "\<exists>l. batch_loss params b = Inr l"
  proof (cases "truthy aux")
    case True
    with w obtain v where "params ''auxiliary_weight'' = Some v" by auto
    with True aux show ?thesis by (simp add: batch_loss_def and_then_def getitem_def)
  next
    case False
    with aux show ?thesis by (simp add: batch_loss_def and_then_def getitem_def)
  qed
  then obtain l where l: "batch_loss params b = Inr l" ..
  obtain r where r: "mod_is_zero step m = Inr r"
    using mz by (cases m) (auto split: if_splits)
  show ?thesis
    using l gc m r pos by (simp add: train_batch_def and_then_def getitem_def Let_def)
qed

lemma batch_loss_nonfinite:
  "batch_loss params b = Inr l \<Longrightarrow> loss b = NonFin \<Longrightarrow> l = NonFin"
  by (auto simp add: batch_loss_def and_then_def split: sum.splits if_splits)

lemma fadd_NonFin: "fadd x NonFin = NonFin"
  by (cases x) simp_all

lemma train_loop_nonfinite:
  assumes "params_complete params"
    and "\<forall>b \<in> set bs. examples b \<noteq> [] \<and> loss b = NonFin"
  shows "\<exists>acc_l' c'. train_loop params bs step (acc_l, c, t) =
                     Inr (acc_l', c', t + sum_list (map targets_size bs)) \<and>
                   (bs \<noteq> [] \<or> acc_l = NonFin \<longrightarrow> acc_l' = NonFin) \<and>
                   (c \<le> t \<longrightarrow> c' \<le> t + sum_list (map targets_size bs))"
  using assms(2)
proof (induction bs arbitrary: step acc_l c t)
  case Nil
  then show ?case by simp
next
  case (Cons b bs)
  from Cons.prems have b: "examples b \<noteq> []" "loss b = NonFin"
    and rest: "\<forall>b \<in> set bs. examples b \<noteq> [] \<and> loss b = NonFin" by simp_all
  from train_batch_complete [OF assms(1) b(1), of step acc_l c t]
  obtain l where l: "batch_loss params b = Inr l"
    and tb: "train_batch params b step (acc_l, c, t) =
               Inr (fadd acc_l l, c + eq_sum b, t + targets_size b)" by blast
  have nf: "fadd acc_l l = NonFin"
    using batch_loss_nonfinite [OF l b(2)] by (simp add: fadd_NonFin)
  from Cons.IH [OF rest, of "Suc step" "fadd acc_l l" "c + eq_sum b" "t + targets_size b"]
  obtain acc_l' c' where
    run: "train_loop params bs (Suc step) (fadd acc_l l, c + eq_sum b, t + targets_size b) =
            Inr (acc_l', c', t + targets_size b + sum_list (map targets_size bs))"
    and fin: "acc_l' = NonFin"
    and le: "c + eq_sum b \<le> t + targets_size b \<longrightarrow>
               c' \<le> t + targets_size b + sum_list (map targets_size bs)"
    using nf by auto
  have "c \<le> t \<longrightarrow> c + eq_sum b \<le> t + targets_size b"
    using eq_sum_le [of b] by linarith
  with tb run fin le show ?case by (simp add: add.assoc)
qed

text \<open>
  C2 (as the code has it): \<^verbatim>\<open>train\<close> has no check of the loss. When every batch of
  the epoch has a non-finite loss, the stream is not empty, no batch is empty and the
  dictionary has the keys that are read, \<^verbatim>\<open>train\<close> raises nothing: it returns an
  accuracy between 0 and 100 together with a non-finite mean loss.
\<close>

theorem train_nonfinite_losses_returns:
  assumes "params_complete params"
    and "train_queue \<noteq> []"
    and "\<forall>b \<in> set train_queue. examples b \<noteq> [] \<and> loss b = NonFin"
  shows "\<exists>acc. fst (train train_queue n params) = Inr (acc, NonFin) \<and> 0 \<le> acc \<and> acc \<le> 100"
proof -
  let ?N = "sum_list (map targets_size train_queue)"
  from train_loop_nonfinite [OF assms(1) assms(3), of 0 "Fin 0" 0 0]
  obtain acc_l' c' where
    run: "train_loop params train_queue 0 (Fin 0, 0, 0) = Inr (acc_l', c', ?N)"
    and nf: "acc_l' = NonFin" and le: "c' \<le> ?N"
    using assms(2) by auto
  have pos: "0 < ?N"
    using assms(2) assms(3) by (intro sum_sizes_pos) auto
  have res: "fst (train train_queue n params) = Inr (100 * real c' / real ?N, NonFin)"
    using run nf pos by (simp add: train_def del: sum_list_eq_0_iff)
  have "real c' \<le> real ?N" using le by simp
  then have "100 * real c' / real ?N \<le> 100" using pos by (simp add: divide_le_eq)
  moreover have "0 \<le> 100 * real c' / real ?N" by simp
  ultimately show ?thesis using res by blast
qed

theorem train_nonfinite_losses_returns_witness:
  "\<not> isl (fst (train [\<lparr>examples = [(1, 1)], loss = NonFin, loss_aux = Fin 1\<rparr>] example_net
      (map_of [(''auxiliary'', PBool True), (''auxiliary_weight'', PFloat (4 / 10)),
               (''grad_clip'', PInt 5), (''log_interval'', PInt 1)]))) \<and>
   snd (projr (fst (train [\<lparr>examples = [(1, 1)], loss = NonFin, loss_aux = Fin 1\<rparr>] example_net
      (map_of [(''auxiliary'', PBool True), (''auxiliary_weight'', PFloat (4 / 10)),
               (''grad_clip'', PInt 5), (''log_interval'', PInt 1)])))) = NonFin"
proof -
  let ?p = "map_of [(''auxiliary'', PBool True), (''auxiliary_weight'', PFloat (4 / 10)),
               (''grad_clip'', PInt 5), (''log_interval'', PInt 1)]"
  let ?q = "[\<lparr>examples = [(1::nat, 1::nat)], loss = NonFin, loss_aux = Fin 1\<rparr>]"
  have h1: "params_complete ?p" by (simp add: params_complete_def)
  have h2: "?q \<noteq> []" by simp
  have h3: "\<forall>b \<in> set ?q. examples b \<noteq> [] \<and> loss b = NonFin" by simp
  from train_nonfinite_losses_returns [OF h1 h2 h3, of example_net]
  show ?thesis by auto
qed

theorem train_nan_epoch_returns_metrics:
  "fst (train nan_batches example_net example_params) = Inr (200 / 3, NonFin)"
  by (simp add: train_def train_batch_def batch_loss_def and_then_def getitem_def
      example_params_def nan_batches_def targets_size_def eq_sum_def Let_def)

section \<open>The call of the training pass from main\<close>

lemma call_train5:
  "call_train 5 q m p = (Inl (TypeError ''train() missing required positional argument''), m)"
  by (simp add: call_train_def train_nparams_def)

lemma epoch_loop_call_fails:
  assumes "\<And>epoch m. fst (call epoch m) = Inl err"
  shows "fst (epoch_loop call dpp n (e # es) w) = Some err"
proof -
  obtain r m where c: "call e (model (epoch_prologue dpp n e w)) = (r, m)"
    by (cases "call e (model (epoch_prologue dpp n e w))") auto
  with assms [of e "model (epoch_prologue dpp n e w)"] have "r = Inl err" by simp
  with c show ?thesis by (simp add: Let_def)
qed

lemma upt_nat_pos: "0 < (k::int) \<Longrightarrow> [0..<nat k] = 0 # [1..<nat k]"
  by (simp add: upt_conv_Cons)

text \<open>
  Whatever the collaborators do, \<^verbatim>\<open>main\<close> with a positive number of epochs ends in
  an exception: if nothing fails before, the first call of \<^verbatim>\<open>train\<close> does.
\<close>

lemma main_epochs_pos_raises:
  assumes "0 < epochs a"
  shows "\<exists>e. fst (main env a) = Inl e"
proof -
  let ?call = "\<lambda>epoch m. call_train 5 (ext_train_queue env epoch) m (train_params a)"
  have "\<And>w. fst (epoch_loop ?call (drop_path_prob a) (epochs a) [0..<nat (epochs a)] w)
          = Some (TypeError ''train() missing required positional argument'')"
    unfolding upt_nat_pos [OF assms]
    by (rule epoch_loop_call_fails) (simp add: call_train5)
  then have "\<And>w r w1. epoch_loop ?call (drop_path_prob a) (epochs a) [0..<nat (epochs a)] w
      = (r, w1) \<Longrightarrow> r = Some (TypeError ''train() missing required positional argument'')"
    by (metis fst_conv)
  then show ?thesis
    by (auto simp add: main_def Let_def split: prod.splits sum.splits option.splits)
qed

text \<open>
  The dictionary that \<^verbatim>\<open>main\<close> builds has the key \<^verbatim>\<open>report_freq\<close>, while
  \<^verbatim>\<open>train\<close> reads \<^verbatim>\<open>log_interval\<close>: with that dictionary the body of
  \<^verbatim>\<open>train\<close> raises \<^verbatim>\<open>KeyError\<close> on its first batch.
\<close>

lemma train_main_params_KeyError:
  "fst (train example_batches example_net (train_params a)) = Inl (KeyError ''log_interval'')"
  by (simp add: train_def train_batch_def batch_loss_def and_then_def getitem_def
      train_params_def example_batches_def targets_size_def eq_sum_def Let_def)

lemma main_example_run1:
  "main example_env (example_args 1) =
     (Inl (TypeError ''train() missing required positional argument''),
      [CreateExpDir, Decode ''micro'', Build ''micro'', TorchSetup,
       SchedulerStep 0, SetDroprate 0, TrainCall 0],
      Some example_net)"
  by (simp add: main_def build_model_def example_env_def example_args_def Let_def
      call_train5 epoch_prologue_def scheduler_step_def CosineAnnealingLR_def
      example_net_def)

lemma main_example_run0:
  "main example_env (example_args 0) =
     (Inr [(''valid_acc'', 200 / 3), (''params'', 1072 / 1000000), (''flops'', 5 / 2)],
      [CreateExpDir, Decode ''micro'', Build ''micro'', TorchSetup, InferCall, FlopsCount,
       OpenLog],
      Some (example_net\<lparr>training := False\<rparr>))"
  apply (simp add: main_def build_model_def example_env_def example_args_def Let_def
      finish_def infer_def example_batches_def targets_size_def eq_sum_def n_params_of_def
      compute_average_flops_cost_def)
  apply (simp add: example_net_def np_round4_def round_half_even_def
      add_flops_counting_methods_def net_eval_def start_flops_count_def
      compute_average_flops_cost_def)
  done

text \<open>
  C1 (what the code does on the scenario): with the micro genome, one epoch, 16 initial
  channels, no auxiliary head and collaborators that all succeed, \<^verbatim>\<open>main\<close> does not
  return a record. Its call of \<^verbatim>\<open>train\<close> passes five arguments to a function of six
  parameters and raises \<^verbatim>\<open>TypeError\<close> in the first epoch.
\<close>

theorem main_micro_scenario_raises:
  "fst (main example_env (example_args 1)) =
     Inl (TypeError ''train() missing required positional argument'')"
  by (simp add: main_example_run1)

section \<open>The learning rate of the epochs\<close>

lemma scheduler_steps:
  "(scheduler_step ^^ Suc k) (CosineAnnealingLR rate t) =
     \<lparr>base_lr = rate, T_max = t, last_epoch = Suc k,
      lr = rate * (1 + cos (pi * real (Suc k) / real_of_int t)) / 2\<rparr>"
  by (induction k) (simp_all add: scheduler_step_def CosineAnnealingLR_def Let_def)

lemma prologue_sched: "sched (epoch_prologue dpp n e w) = scheduler_step (sched w)"
  by (simp add: epoch_prologue_def Let_def)

text \<open>
  From one epoch to the next the rate does not increase, as long as the number of steps
  stays within \<open>T_max\<close>.
\<close>

lemma cosine_rate_nonincreasing:
  assumes "0 \<le> rate" and "int (Suc (Suc k)) \<le> t"
  shows "lr ((scheduler_step ^^ Suc (Suc k)) (CosineAnnealingLR rate t))
           \<le> lr ((scheduler_step ^^ Suc k) (CosineAnnealingLR rate t))"
proof -
  have t: "0 < real_of_int t" using assms(2) by simp
  have a: "0 \<le> pi * real (Suc k) / real_of_int t" using t by simp
  have b: "pi * real (Suc k) / real_of_int t \<le> pi * real (Suc (Suc k)) / real_of_int t"
    using t by (simp add: divide_le_cancel)
  have "real (Suc (Suc k)) \<le> real_of_int t" using assms(2) by linarith
  then have "real (Suc (Suc k)) / real_of_int t \<le> 1" using t by (simp add: divide_le_eq)
  then have "pi * (real (Suc (Suc k)) / real_of_int t) \<le> pi * 1"
    by (intro mult_left_mono) simp_all
  then have c: "pi * real (Suc (Suc k)) / real_of_int t \<le> pi" by simp
  have "cos (pi * real (Suc (Suc k)) / real_of_int t)
          \<le> cos (pi * real (Suc k) / real_of_int t)"
    using a b c by (rule cos_monotone_0_pi_le)
  then have "rate * (1 + cos (pi * real (Suc (Suc k)) / real_of_int t))
               \<le> rate * (1 + cos (pi * real (Suc k) / real_of_int t))"
    using assms(1) by (intro mult_left_mono) simp_all
  then show ?thesis unfolding scheduler_steps by simp
qed

text \<open>
  C3 (what the code does with one epoch): \<^verbatim>\<open>main\<close> steps the scheduler before the
  first call of \<^verbatim>\<open>train\<close>, so the rate in force during epoch 0 is the second value
  of the schedule. With \<open>epochs = 1\<close> that value is 0, while the configured initial
  rate is 0.025.
\<close>

theorem main_first_epoch_rate_is_zero:
  "fst (snd (main example_env (example_args 1))) =
     [CreateExpDir, Decode ''micro'', Build ''micro'', TorchSetup,
      SchedulerStep 0, SetDroprate 0, TrainCall 0] \<and>
   lr (scheduler_step (CosineAnnealingLR learning_rate 1)) = 0 \<and>
   learning_rate = 25 / 1000"
  by (simp add: main_example_run1 scheduler_step_def CosineAnnealingLR_def learning_rate_def)

section \<open>The returned dictionary\<close>

lemma finish_fields:
  "fst (finish env p w) = Inr r \<Longrightarrow> map fst r = [''valid_acc'', ''params'', ''flops'']"
  by (auto simp add: finish_def Let_def split: prod.splits sum.splits option.splits)

lemma main_Inr_finish:
  assumes "fst (main env a) = Inr r"
  shows "\<exists>p w. main env a = finish env p w"
  using assms
  by (auto simp add: main_def Let_def split: prod.splits sum.splits option.splits)

text \<open>
  C4 (as the code has it): whenever \<^verbatim>\<open>main\<close> returns, the dictionary has exactly the
  keys \<^verbatim>\<open>valid_acc\<close>, \<^verbatim>\<open>params\<close> and \<^verbatim>\<open>flops\<close>, in this order.
\<close>

theorem main_result_fields:
  assumes "fst (main env a) = Inr r"
  shows "map fst r = [''valid_acc'', ''params'', ''flops'']"
proof -
  from main_Inr_finish [OF assms] obtain p w where "main env a = finish env p w" by blast
  with assms have "fst (finish env p w) = Inr r" by simp
  then show ?thesis by (rule finish_fields)
qed

theorem main_result_fields_witness:
  "map fst (projr (fst (main example_env (example_args 0)))) =
     [''valid_acc'', ''params'', ''flops'']"
proof -
  have h: "fst (main example_env (example_args 0)) =
             Inr (projr (fst (main example_env (example_args 0))))"
    by (simp add: main_example_run0)
  from main_result_fields [OF h] show ?thesis .
qed

theorem main_result_lacks_fields:
  "fst (main example_env (example_args 0)) =
     Inr [(''valid_acc'', 200 / 3), (''params'', 1072 / 1000000), (''flops'', 5 / 2)] \<and>
   ''genome'' \<notin> set (map fst (projr (fst (main example_env (example_args 0))))) \<and>
   ''architecture_description'' \<notin>
     set (map fst (projr (fst (main example_env (example_args 0))))) \<and>
   ''validation_loss'' \<notin> set (map fst (projr (fst (main example_env (example_args 0)))))"
  by (simp add: main_example_run0)

section \<open>An unknown search space\<close>

text \<open>
  C5: for a search space other than \<^verbatim>\<open>micro\<close> and \<^verbatim>\<open>macro\<close>, \<^verbatim>\<open>main\<close> raises
  \<^verbatim>\<open>NameError('Unknown search space type')\<close> right after the experiment directory
  step (or the error of that step, should it fail): no decoder and no model constructor
  has been called, and no network exists.
\<close>

theorem main_unknown_search_space:
  assumes "search_space a \<noteq> ''micro''" and "search_space a \<noteq> ''macro''"
  shows "main env a =
           (case ext_create_exp_dir env of
              Some e \<Rightarrow> (Inl e, [CreateExpDir], None)
            | None \<Rightarrow> (Inl (NameError ''Unknown search space type''), [CreateExpDir], None))"
  using assms by (simp add: main_def build_model_def split: option.splits)

theorem main_unknown_search_space_witness:
  "search_space ((example_args 1)\<lparr>search_space := ''nano''\<rparr>) \<noteq> ''micro'' \<and>
   search_space ((example_args 1)\<lparr>search_space := ''nano''\<rparr>) \<noteq> ''macro'' \<and>
   main example_env ((example_args 1)\<lparr>search_space := ''nano''\<rparr>) =
     (Inl (NameError ''Unknown search space type''), [CreateExpDir], None)"
  using main_unknown_search_space
    [of "(example_args 1)\<lparr>search_space := ''nano''\<rparr>" example_env]
  by (simp add: example_env_def)

section \<open>The network after the FLOP count\<close>

lemma call_train_flops:
  "flops_methods (snd (call_train k q m p)) = flops_methods m \<and>
   flops_counting (snd (call_train k q m p)) = flops_counting m"
  by (simp add: call_train_def train_def Let_def split: sum.splits prod.splits)

lemma epoch_loop_flops:
  assumes "\<And>e m. flops_methods (snd (call e m)) = flops_methods m \<and>
                  flops_counting (snd (call e m)) = flops_counting m"
  shows "flops_methods (model (snd (epoch_loop call dpp n es w))) = flops_methods (model w) \<and>
         flops_counting (model (snd (epoch_loop call dpp n es w))) = flops_counting (model w)"
proof (induction es arbitrary: w)
  case Nil
  show ?case by simp
next
  case (Cons e es)
  let ?w1 = "epoch_prologue dpp n e w"
  obtain r m where c: "call e (model ?w1) = (r, m)"
    by (cases "call e (model ?w1)") auto
  have m: "flops_methods m = flops_methods (model w) \<and>
           flops_counting m = flops_counting (model w)"
    using assms [of e "model ?w1"] c by (simp add: epoch_prologue_def Let_def)
  show ?case
  proof (cases r)
    case (Inl err)
    with c m show ?thesis by (simp add: Let_def)
  next
    case (Inr v)
    with c m Cons.IH [of "?w1\<lparr>model := m, trace := trace ?w1 @ [TrainCall e]\<rparr>"]
    show ?thesis by (simp add: Let_def)
  qed
qed

lemma net_flops_cleared:
  "\<not> flops_methods m \<Longrightarrow> \<not> flops_counting m \<Longrightarrow>
   m\<lparr>flops_methods := False, flops_counting := False\<rparr> = m"
  by (cases m) simp

lemma finish_net:
  assumes "fst (finish env p w) = Inr r"
    and "\<not> flops_methods (model w)" and "\<not> flops_counting (model w)"
  shows "snd (snd (finish env p w)) = Some (snd (infer (ext_valid_queue env) (model w)))"
proof -
  let ?m1 = "(model w)\<lparr>training := False\<rparr>"
  have m1: "snd (infer (ext_valid_queue env) (model w)) = ?m1"
    by (simp add: infer_def Let_def split: prod.splits)
  have "?m1\<lparr>flops_methods := False, flops_counting := False\<rparr> = ?m1"
    using assms(2,3) by (intro net_flops_cleared) simp_all
  then have same: "(model w)\<lparr>training := False, flops_methods := False,
                     flops_counting := False\<rparr> = ?m1" by simp
  from assms(1) have "snd (snd (finish env p w)) =
      Some ((model w)\<lparr>training := False, flops_methods := False, flops_counting := False\<rparr>)"
    by (auto simp add: finish_def Let_def infer_def add_flops_counting_methods_def
        net_eval_def start_flops_count_def compute_average_flops_cost_def
        split: prod.splits sum.splits option.splits if_splits)
  with same m1 show ?thesis by simp
qed

text \<open>
  C6: when \<^verbatim>\<open>main\<close> returns and the network the constructor built carried no FLOP
  counter, the network \<^verbatim>\<open>main\<close> holds after the FLOP count is the network as the
  evaluation pass left it: the counting methods and the counters are gone, and nothing
  else has changed.
\<close>

theorem main_profiling_transparent:
  assumes "fst (main env a) = Inr r"
    and "build_model env a = (Inr (g, m0), tr)"
    and "\<not> flops_methods m0" and "\<not> flops_counting m0"
  shows "snd (snd (main env a)) =
           Some (snd (infer (ext_valid_queue env)
             (model (snd (epoch_loop
                (\<lambda>epoch m. call_train 5 (ext_train_queue env epoch) m (train_params a))
                (drop_path_prob a) (epochs a) [0..<nat (epochs a)]
                \<lparr>sched = CosineAnnealingLR learning_rate (epochs a), model = m0,
                   trace = tr @ [TorchSetup]\<rparr>)))))"
proof -
  let ?call = "\<lambda>epoch m. call_train 5 (ext_train_queue env epoch) m (train_params a)"
  let ?w0 = "\<lparr>sched = CosineAnnealingLR learning_rate (epochs a), model = m0,
               trace = tr @ [TorchSetup]\<rparr>"
  let ?run = "epoch_loop ?call (drop_path_prob a) (epochs a) [0..<nat (epochs a)] ?w0"
  have flags: "\<not> flops_methods (model (snd ?run)) \<and> \<not> flops_counting (model (snd ?run))"
    using epoch_loop_flops [of ?call "drop_path_prob a" "epochs a" "[0..<nat (epochs a)]" ?w0]
      call_train_flops assms(3,4) by simp
  have eq: "main env a = finish env (n_params_of m0) (snd ?run)"
    using assms(1,2)
    by (auto simp add: main_def Let_def split: prod.splits sum.splits option.splits)
  with assms(1) have "fst (finish env (n_params_of m0) (snd ?run)) = Inr r" by simp
  from finish_net [OF this] flags eq show ?thesis by simp
qed

theorem main_profiling_transparent_witness:
  "snd (snd (main example_env (example_args 0))) =
     Some (snd (infer (ext_valid_queue example_env) example_net)) \<and>
   \<not> flops_methods (the (snd (snd (main example_env (example_args 0))))) \<and>
   \<not> flops_counting (the (snd (snd (main example_env (example_args 0)))))"
proof -
  have h1: "fst (main example_env (example_args 0)) =
     Inr [(''valid_acc'', 200 / 3), (''params'', 1072 / 1000000), (''flops'', 5 / 2)]"
    by (simp add: main_example_run0)
  have h2: "build_model example_env (example_args 0) =
     (Inr (Genotype ''micro'', example_net),
      [CreateExpDir, Decode ''micro'', Build ''micro''])"
    by (simp add: build_model_def example_env_def example_args_def)
  have h3: "\<not> flops_methods example_net" by (simp add: example_net_def)
  have h4: "\<not> flops_counting example_net" by (simp add: example_net_def)
  from main_profiling_transparent [OF h1 h2 h3 h4]
  show ?thesis by (simp add: example_args_def infer_def example_net_def Let_def
      split: prod.splits)
qed

section \<open>A failure of the summary file\<close>

lemma build_model_open_log [simp]:
  "build_model (env\<lparr>ext_open_log := x\<rparr>) a = build_model env a"
  by (simp add: build_model_def cong: option.case_cong sum.case_cong)

lemma finish_open_log_cases:
  assumes "ext_open_log env = Some e"
  shows "fst (finish env p w) = Inl e \<or>
         (\<exists>e'. fst (finish env p w) = Inl e' \<and>
               finish env p w = finish (env\<lparr>ext_open_log := None\<rparr>) p w)"
  using assms
  by (auto simp add: finish_def Let_def compute_average_flops_cost_def
      split: prod.splits sum.splits option.splits)

lemma main_log_failure_run:
  "main (example_env\<lparr>ext_open_log := Some (OSError ''log.txt'')\<rparr>) (example_args 0) =
     (Inl (OSError ''log.txt''),
      [CreateExpDir, Decode ''micro'', Build ''micro'', TorchSetup, InferCall, FlopsCount,
       OpenLog],
      Some (example_net\<lparr>training := False\<rparr>))"
  apply (simp add: main_def build_model_def example_env_def example_args_def Let_def
      finish_def infer_def example_batches_def targets_size_def eq_sum_def n_params_of_def
      compute_average_flops_cost_def)
  apply (simp add: example_net_def np_round4_def round_half_even_def
      add_flops_counting_methods_def net_eval_def start_flops_count_def
      compute_average_flops_cost_def)
  done

text \<open>
  C7 (as the code has it): nothing catches a failure of the summary file. When opening
  or writing \<^verbatim>\<open>log.txt\<close> fails, \<^verbatim>\<open>main\<close> returns no record: it raises that error,
  unless it had already raised another one before reaching the file, in which case the run
  is the same as with a working file.
\<close>

theorem main_summary_failure_propagates:
  assumes "ext_open_log env = Some e"
  shows "fst (main env a) = Inl e \<or>
         (\<exists>e'. fst (main env a) = Inl e' \<and>
               main env a = main (env\<lparr>ext_open_log := None\<rparr>) a)"
proof -
  let ?env' = "env\<lparr>ext_open_log := None\<rparr>"
  show ?thesis
  proof (cases "\<exists>p w. main env a = finish env p w \<and> main ?env' a = finish ?env' p w")
    case True
    then obtain p w where "main env a = finish env p w" "main ?env' a = finish ?env' p w"
      by blast
    with finish_open_log_cases [OF assms, of p w] show ?thesis by auto
  next
    case False
    then show ?thesis
      by (auto simp add: main_def Let_def split: prod.splits sum.splits option.splits)
  qed
qed

theorem main_summary_failure_propagates_witness:
  "fst (main (example_env\<lparr>ext_open_log := Some (OSError ''disk full'')\<rparr>) (example_args 0))
     = Inl (OSError ''disk full'')"
proof -
  let ?env = "example_env\<lparr>ext_open_log := Some (OSError ''disk full'')\<rparr>"
  have h: "ext_open_log ?env = Some (OSError ''disk full'')" by simp
  have ok: "\<not> isl (fst (main (?env\<lparr>ext_open_log := None\<rparr>) (example_args 0)))"
    using main_example_run0 by (simp add: example_env_def)
  from main_summary_failure_propagates [OF h, of "example_args 0"] ok
  show ?thesis by auto
qed

theorem main_summary_failure_raises:
  "fst (main (example_env\<lparr>ext_open_log := Some (OSError ''log.txt'')\<rparr>) (example_args 0)) =
     Inl (OSError ''log.txt'')"
  by (simp add: main_log_failure_run)

section \<open>The drop-path rate of the epochs\<close>

lemma prologue_droprate:
  "droprate (model (epoch_prologue dpp n e w)) = dpp * real e / real_of_int n"
  by (simp add: epoch_prologue_def Let_def)

text \<open>
  C10 (as the code has it): for a drop-path probability that is not negative and an epoch
  \<open>e\<close> below the number of epochs, the rate assigned before epoch \<open>e\<close> is
  \<open>drop_path_prob * e / epochs\<close>; it is 0 before the first epoch, does not decrease
  from an epoch to the next, never exceeds \<open>drop_path_prob\<close>, and is strictly below it
  when \<open>drop_path_prob\<close> is positive.
\<close>

theorem droprate_schedule:
  assumes "0 \<le> dpp" and "int e < n"
  shows "droprate (model (epoch_prologue dpp n e w)) = dpp * real e / real_of_int n \<and>
         droprate (model (epoch_prologue dpp n 0 w)) = 0 \<and>
         droprate (model (epoch_prologue dpp n e w))
           \<le> droprate (model (epoch_prologue dpp n (Suc e) w')) \<and>
         droprate (model (epoch_prologue dpp n e w)) \<le> dpp \<and>
         (0 < dpp \<longrightarrow> droprate (model (epoch_prologue dpp n e w)) < dpp)"
proof -
  have n: "0 < real_of_int n" using assms(2) by linarith
  have en: "real e < real_of_int n" using assms(2) by linarith
  have mono: "dpp * real e / real_of_int n \<le> dpp * real (Suc e) / real_of_int n"
    using n assms(1) by (simp add: divide_le_cancel mult_left_mono)
  have "dpp * real e \<le> dpp * real_of_int n"
    using en assms(1) by (intro mult_left_mono) simp_all
  then have le: "dpp * real e / real_of_int n \<le> dpp"
    using n by (simp add: divide_le_eq)
  have lt: "0 < dpp \<longrightarrow> dpp * real e / real_of_int n < dpp"
  proof
    assume "0 < dpp"
    with en have "dpp * real e < dpp * real_of_int n" by simp
    then show "dpp * real e / real_of_int n < dpp" using n by (simp add: divide_less_eq)
  qed
  show ?thesis unfolding prologue_droprate using mono le lt by simp
qed

theorem droprate_schedule_witness:
  "droprate (model (epoch_prologue (1 / 2) 4 1
      \<lparr>sched = CosineAnnealingLR learning_rate 4, model = example_net, trace = []\<rparr>)) = 1 / 8 \<and>
   droprate (model (epoch_prologue (1 / 2) 4 1
      \<lparr>sched = CosineAnnealingLR learning_rate 4, model = example_net, trace = []\<rparr>)) < 1 / 2"
proof -
  have h1: "(0::real) \<le> 1 / 2" by simp
  have h2: "int 1 < 4" by simp
  from droprate_schedule [OF h1 h2] show ?thesis by simp
qed

theorem droprate_not_below_zero_prob:
  "\<not> droprate (model (epoch_prologue (drop_path_prob (example_args 1))
        (epochs (example_args 1)) 0
        \<lparr>sched = CosineAnnealingLR learning_rate 1, model = example_net, trace = []\<rparr>))
     < drop_path_prob (example_args 1)"
  by (simp add: epoch_prologue_def example_args_def Let_def)

end
